theory Spec2Isabelle
  imports Complex_Main
begin

section \<open>Exact numbers and errors\<close>

text \<open>
  All coordinates and coefficients of the program are exact elements of an ordered number
  field (Sage's base ring); they are modelled by their values in \<^typ>\<open>real\<close>, where
  arithmetic and comparison are exact. Every exception the Python code can raise is a value
  of \<open>error\<close>; a computation that can raise returns \<open>error + 'a\<close>.
\<close>

datatype error =
    ValueError string
  | NotImplementedError
  | ZeroDivisionError
  | KeyError
  | IndexError
  | AttributeError
  | TypeError

text \<open>
  \<open>Radical(A, B, C)\<close> of \<open>bowman.radical\<close> is the exact number \<open>A + B * sqrt C\<close>.

  Modelled from the spec: the class \<open>Radical\<close> is not among the sources; the
  spec describes an exact number as a value of the form \<open>p + q * sqrt r\<close>, which is what
  \<open>radical_value\<close> computes for the property \<open>value\<close>.
\<close>

datatype radical = Radical (rad_A: real) (rad_B: real) (rad_C: real)

definition radical_value :: "radical \<Rightarrow> real" where
  "radical_value r = rad_A r + rad_B r * sqrt (rad_C r)"

definition bind :: "error + 'a \<Rightarrow> ('a \<Rightarrow> error + 'b) \<Rightarrow> error + 'b" where
  "bind m f = (case m of Inl e \<Rightarrow> Inl e | Inr x \<Rightarrow> f x)"

section \<open>Points and edges (bowman/polygon.py)\<close>

text \<open>
  Modelled from the spec: the classes \<open>Point\<close> and \<open>Edge\<close> of \<open>bowman.polygon\<close> are
  not among the sources. By the spec a Point has a coordinate \<open>u\<close>, an exact number or the
  sentinel infinity, and a height \<open>v\<close>; it is at infinity iff \<open>u\<close> is the sentinel. Where
  halfplane.py builds a Point from a plain number \<open>x\<close> and later reads the components of its
  \<open>u\<close> (\<open>center.u.A\<close>), the number is stored as \<open>Radical(x, 0, 0)\<close>, the way
  \<open>intersect_boundaries\<close> itself writes it. An Edge has the optional half-plane on whose
  boundary it lies and two end points, and is ideal iff that half-plane is absent. The end
  points are optional because \<open>_intersect_edge_real\<close> stores the result of
  \<open>intersect_boundaries\<close>, which may be \<open>None\<close>, unchecked.
\<close>

datatype coord = Infinity | Finite radical

datatype point = Point (pt_u: coord) (pt_v: real)

definition number :: "real \<Rightarrow> coord" where
  "number x = Finite (Radical x 0 0)"

definition is_infinity :: "point \<Rightarrow> bool" where
  "is_infinity p = (pt_u p = Infinity)"

text \<open>\<open>p.u.A\<close>, and the unpacking \<open>A, *_ = p.u\<close>, of a coordinate.\<close>

fun coord_A :: "coord \<Rightarrow> error + real" where
  "coord_A (Finite r) = Inr (rad_A r)"
| "coord_A Infinity = Inl AttributeError"

fun unpack_A :: "coord \<Rightarrow> error + real" where
  "unpack_A (Finite r) = Inr (rad_A r)"
| "unpack_A Infinity = Inl TypeError"

section \<open>Half-planes (bowman/halfplane.py)\<close>

text \<open>
  \<open>HalfPlane\<close> is a named tuple of the coefficients \<open>(a, b, c)\<close> with the two
  subclasses \<open>Line\<close> and \<open>Circle\<close>; none of the three constructors checks its
  arguments. The class of an object is the constructor of the datatype. (Python compares
  named tuples by their fields alone; the equality of the datatype also compares the class.)
\<close>

datatype halfplane =
    is_HalfPlane: HalfPlane (hp_a: real) (hp_b: real) (hp_c: real)
  | is_Line: Line (hp_a: real) (hp_b: real) (hp_c: real)
  | is_Circle: Circle (hp_a: real) (hp_b: real) (hp_c: real)

definition degenerate :: error where
  "degenerate = ValueError ''Coeffs determine a degenerate inequality''"

definition from_ineq :: "real \<Rightarrow> real \<Rightarrow> real \<Rightarrow> error + halfplane" where
  "from_ineq a b c =
     (if a = 0 \<and> b \<noteq> 0 then Inr (Line a b c)
      else if a \<noteq> 0 \<and> b\<^sup>2 - 4 * a * c > 0 then Inr (Circle a b c)
      else Inl degenerate)"

text \<open>
  Modelled from the spec: \<open>Point._plug_point_into_halfplane(point, hp).value\<close> is, for an
  ordinary point, the value of \<open>hp.a * (u\<^sup>2 + v\<^sup>2) + hp.b * u + hp.c\<close> at the point's
  coordinates.
\<close>

definition plug_point_into_halfplane :: "radical \<Rightarrow> real \<Rightarrow> halfplane \<Rightarrow> real" where
  "plug_point_into_halfplane u v h =
     hp_a h * ((radical_value u)\<^sup>2 + v\<^sup>2) + hp_b h * radical_value u + hp_c h"

text \<open>\<open>Circle.center\<close> and \<open>Circle.radius2\<close>; the division raises when \<open>a = 0\<close>.\<close>

fun center :: "halfplane \<Rightarrow> error + point" where
  "center (Circle a b c) =
     (if 2 * a = 0 then Inl ZeroDivisionError else Inr (Point (number (- b / (2 * a))) 0))"
| "center (Line a b c) = Inl AttributeError"
| "center (HalfPlane a b c) = Inl AttributeError"

fun radius2 :: "halfplane \<Rightarrow> error + real" where
  "radius2 (Circle a b c) =
     (if 4 * a\<^sup>2 = 0 then Inl ZeroDivisionError else Inr ((b\<^sup>2 - 4 * a * c) / (4 * a\<^sup>2)))"
| "radius2 (Line a b c) = Inl AttributeError"
| "radius2 (HalfPlane a b c) = Inl AttributeError"

text \<open>
  \<open>is_oriented\<close> of a Circle calls \<open>contains_point\<close> at the centre, and
  \<open>contains_point\<close> at the point at infinity reads \<open>is_oriented\<close>; the property of the
  base class raises \<open>NotImplementedError\<close>.
\<close>

function is_oriented :: "halfplane \<Rightarrow> error + bool"
  and contains_point :: "halfplane \<Rightarrow> point \<Rightarrow> bool \<Rightarrow> error + bool" where
  "is_oriented (HalfPlane a b c) = Inl NotImplementedError"
| "is_oriented (Line a b c) = Inr (b < 0)"
| "is_oriented (Circle a b c) =
     (case center (Circle a b c) of
        Inl e \<Rightarrow> Inl e
      | Inr p \<Rightarrow> contains_point (Circle a b c) p False)"
| "contains_point h (Point Infinity v) on_boundary =
     (if \<not> on_boundary then
        (if is_Line h then Inr True
         else (case is_oriented h of Inl e \<Rightarrow> Inl e | Inr ori \<Rightarrow> Inr (\<not> ori)))
      else Inr (is_Line h))"
| "contains_point h (Point (Finite u) v) on_boundary =
     (let result = plug_point_into_halfplane u v h
      in Inr (result = 0 \<or> (\<not> on_boundary \<and> result > 0)))"
  by pat_completeness auto
termination
  by (relation "measure (\<lambda>x. case x of Inl h \<Rightarrow> 1
                 | Inr (h, p, ob) \<Rightarrow> if is_infinity p then 2 else 0)")
     (auto simp: is_infinity_def number_def split: if_splits)

fun intersect_solve :: "real \<Rightarrow> real \<Rightarrow> real \<Rightarrow> real \<Rightarrow> real \<Rightarrow> real \<Rightarrow> real \<times> real" where
  "intersect_solve a1 b1 a2 b2 r1 r2 =
     ((r1 * b2 - b1 * r2) / (a1 * b2 - b1 * a2), (a1 * r2 - r1 * a2) / (a1 * b2 - b1 * a2))"

definition intersect_boundaries :: "halfplane \<Rightarrow> halfplane \<Rightarrow> point option" where
  "intersect_boundaries self other =
     (if is_Line self \<and> is_Line other then Some (Point Infinity 0)
      else if hp_a self * hp_b other - hp_b self * hp_a other = 0 then None
      else
        (case intersect_solve (hp_a self) (hp_b self) (hp_a other) (hp_b other)
                (- hp_c self) (- hp_c other) of
           (u2_plus_v2, u) \<Rightarrow>
             (let v2 = u2_plus_v2 - u\<^sup>2
              in if v2 < 0 then None else Some (Point (Finite (Radical u 0 0)) v2))))"

datatype edge =
  Edge (edge_halfplane: "halfplane option") (edge_start: "point option")
       (edge_end: "point option")

definition is_ideal :: "edge \<Rightarrow> bool" where
  "is_ideal e = (edge_halfplane e = None)"

definition intersect_edge_real :: "halfplane \<Rightarrow> edge \<Rightarrow> error + edge list" where
  "intersect_edge_real self e =
     (case edge_start e of
        None \<Rightarrow> Inl AttributeError
      | Some s \<Rightarrow>
          bind (contains_point self s False) (\<lambda>contains_start.
            (case edge_end e of
               None \<Rightarrow> Inl AttributeError
             | Some t \<Rightarrow>
                 bind (contains_point self t False) (\<lambda>contains_end.
                   if contains_start \<and> contains_end then Inr [e]
                   else if \<not> (contains_start \<or> contains_end) then Inr []
                   else
                     (case edge_halfplane e of
                        None \<Rightarrow> Inl AttributeError
                      | Some g \<Rightarrow>
                          (let edge_intersect_boundary = intersect_boundaries self g
                           in if contains_start
                              then Inr [Edge (Some g) (Some s) edge_intersect_boundary]
                              else Inr [Edge (Some g) edge_intersect_boundary (Some t)]))))))"

text \<open>
  The properties \<open>start\<close>, \<open>end\<close>, \<open>_point_inside\<close> and \<open>_point_outside\<close>. Each
  raises \<open>NotImplementedError\<close> in the base class; \<open>Line.end\<close> of an unoriented Line
  divides by \<open>b\<close>.
\<close>

fun hp_start :: "halfplane \<Rightarrow> error + point" where
  "hp_start (HalfPlane a b c) = Inl NotImplementedError"
| "hp_start (Line a b c) =
     bind (is_oriented (Line a b c)) (\<lambda>ori.
       if ori then (if b = 0 then Inl ZeroDivisionError else Inr (Point (number (- c / b)) 0))
       else Inr (Point Infinity 0))"
| "hp_start (Circle a b c) =
     bind (center (Circle a b c)) (\<lambda>ctr.
     bind (coord_A (pt_u ctr)) (\<lambda>coord_center.
     bind (is_oriented (Circle a b c)) (\<lambda>ori.
     bind (radius2 (Circle a b c)) (\<lambda>r2.
       Inr (Point (Finite (Radical coord_center (if ori then 1 else - 1) r2)) 0)))))"

fun hp_end :: "halfplane \<Rightarrow> error + point" where
  "hp_end (HalfPlane a b c) = Inl NotImplementedError"
| "hp_end (Line a b c) =
     bind (is_oriented (Line a b c)) (\<lambda>ori.
       if ori then Inr (Point Infinity 0)
       else (if b = 0 then Inl ZeroDivisionError else Inr (Point (number (- c / b)) 0)))"
| "hp_end (Circle a b c) =
     bind (center (Circle a b c)) (\<lambda>ctr.
     bind (coord_A (pt_u ctr)) (\<lambda>coord_center.
     bind (is_oriented (Circle a b c)) (\<lambda>ori.
     bind (radius2 (Circle a b c)) (\<lambda>r2.
       Inr (Point (Finite (Radical coord_center (if ori then - 1 else 1) r2)) 0)))))"

definition endpoint_real :: "halfplane \<Rightarrow> error + point" where
  "endpoint_real h = bind (is_oriented h) (\<lambda>ori. if ori then hp_start h else hp_end h)"

text \<open>\<open>A, B, C = p.u\<close>: unpacking the coordinate of a Point, which must be a Radical.\<close>

fun shift_point :: "point \<Rightarrow> real \<Rightarrow> error + point" where
  "shift_point (Point (Finite (Radical A B C)) v) d = Inr (Point (Finite (Radical (A + d) B C)) 0)"
| "shift_point (Point Infinity v) d = Inl TypeError"

fun point_inside :: "halfplane \<Rightarrow> error + point" where
  "point_inside (HalfPlane a b c) = Inl NotImplementedError"
| "point_inside (Line a b c) =
     bind (endpoint_real (Line a b c)) (\<lambda>p.
     bind (unpack_A (pt_u p)) (\<lambda>A.
     bind (is_oriented (Line a b c)) (\<lambda>ori.
       if ori then Inr (Point (number (A - 1)) 0) else Inr (Point (number (A + 1)) 0))))"
| "point_inside (Circle a b c) =
     bind (is_oriented (Circle a b c)) (\<lambda>ori.
       if ori then center (Circle a b c)
       else bind (hp_end (Circle a b c)) (\<lambda>p. shift_point p 1))"

fun point_outside :: "halfplane \<Rightarrow> error + point" where
  "point_outside (HalfPlane a b c) = Inl NotImplementedError"
| "point_outside (Line a b c) =
     bind (endpoint_real (Line a b c)) (\<lambda>p.
     bind (unpack_A (pt_u p)) (\<lambda>A.
     bind (is_oriented (Line a b c)) (\<lambda>ori.
       if ori then Inr (Point (number (A + 1)) 0) else Inr (Point (number (A - 1)) 0))))"
| "point_outside (Circle a b c) =
     bind (is_oriented (Circle a b c)) (\<lambda>ori.
       if ori then bind (hp_start (Circle a b c)) (\<lambda>p. shift_point p 1)
       else center (Circle a b c))"

text \<open>
  \<open>Point.CCW\<close> belongs to \<open>bowman.polygon\<close>, which is not among the sources; the clipping
  of an ideal edge takes it as the parameter \<open>CCW\<close>.
\<close>

definition intersect_edge_ideal ::
  "(point \<Rightarrow> point \<Rightarrow> point \<Rightarrow> bool) \<Rightarrow> halfplane \<Rightarrow> edge \<Rightarrow> error + edge list" where
  "intersect_edge_ideal CCW self e =
     (case edge_start e of
        None \<Rightarrow> Inl AttributeError
      | Some s \<Rightarrow>
          bind (contains_point self s False) (\<lambda>includes_edge_start.
            (case edge_end e of
               None \<Rightarrow> Inl AttributeError
             | Some t \<Rightarrow>
                 bind (contains_point self t False) (\<lambda>includes_edge_end.
                   if includes_edge_start \<and> includes_edge_end then
                     bind (point_outside self) (\<lambda>po.
                       if CCW s t po then Inr [e]
                       else
                         bind (hp_start self) (\<lambda>self_start.
                         bind (hp_end self) (\<lambda>self_end.
                           Inr [Edge None (Some s) (Some self_start),
                                Edge None (Some self_end) (Some t)])))
                   else if includes_edge_start \<noteq> includes_edge_end then
                     (if includes_edge_start
                      then bind (hp_start self) (\<lambda>self_start.
                             Inr [Edge None (Some s) (Some self_start)])
                      else bind (hp_end self) (\<lambda>self_end.
                             Inr [Edge None (Some self_end) (Some t)]))
                   else
                     bind (point_inside self) (\<lambda>pin.
                       if CCW s t pin then Inr []
                       else
                         bind (hp_end self) (\<lambda>self_end.
                         bind (hp_start self) (\<lambda>self_start.
                           Inr [Edge None (Some self_end) (Some self_start)])))))))"

definition intersect_edge ::
  "(point \<Rightarrow> point \<Rightarrow> point \<Rightarrow> bool) \<Rightarrow> halfplane \<Rightarrow> edge \<Rightarrow> error + edge list" where
  "intersect_edge CCW self e =
     (if is_ideal e then intersect_edge_ideal CCW self e else intersect_edge_real self e)"

section \<open>Triangulations (triangulation.py)\<close>

text \<open>
  A vector is a pair of exact numbers. A Triangle holds the list of its edge vectors, a
  Hinge the tuple \<open>vectors\<close> of three vectors, and a Triangulation the list of its
  triangles and the dictionary \<open>gluings\<close> from labels \<open>(triangle index, edge index)\<close> to
  labels (its base ring plays no part in what follows). Lists are indexed the way Python
  does it: a negative index counts from the end, and an index out of range raises.
\<close>

type_synonym vec = "real \<times> real"

type_synonym label = "int \<times> int"

definition neg :: "vec \<Rightarrow> vec" where
  "neg v = (- fst v, - snd v)"

definition getitem :: "'a list \<Rightarrow> int \<Rightarrow> error + 'a" where
  "getitem xs i =
     (if 0 \<le> i \<and> i < int (length xs) then Inr (xs ! nat i)
      else if i < 0 \<and> - int (length xs) \<le> i then Inr (xs ! nat (int (length xs) + i))
      else Inl IndexError)"

fun map_err :: "('a \<Rightarrow> error + 'b) \<Rightarrow> 'a list \<Rightarrow> error + 'b list" where
  "map_err f [] = Inr []"
| "map_err f (x # xs) = bind (f x) (\<lambda>y. bind (map_err f xs) (\<lambda>ys. Inr (y # ys)))"

datatype triangle = Triangle (tri_edges: "vec list")

datatype hinge = Hinge vec vec vec

record triangulation =
  triangles :: "triangle list"
  gluings :: "label \<rightharpoonup> label"

definition from_triangles :: "triangle \<Rightarrow> int \<Rightarrow> triangle \<Rightarrow> int \<Rightarrow> error + hinge" where
  "from_triangles triangle1 label_e1 triangle2 label_e2 =
     bind (getitem (tri_edges triangle1) label_e1) (\<lambda>edge1.
     bind (getitem (tri_edges triangle2) label_e2) (\<lambda>edge2.
       if edge1 \<noteq> neg edge2
       then Inl (ValueError ''Edges are either nonparallel or oriented incorrectly'')
       else
         bind (getitem (tri_edges triangle2) ((label_e2 + 1) mod 3)) (\<lambda>v0.
         bind (getitem (tri_edges triangle1) ((label_e1 - 1) mod 3)) (\<lambda>w.
           Inr (Hinge v0 edge1 (neg w))))))"

text \<open>The determinant of the 3 by 3 matrix with the given rows.\<close>

fun det3 :: "real \<times> real \<times> real \<Rightarrow> real \<times> real \<times> real \<Rightarrow> real \<times> real \<times> real \<Rightarrow> real" where
  "det3 (a11, a12, a13) (a21, a22, a23) (a31, a32, a33) =
     a11 * (a22 * a33 - a23 * a32) - a12 * (a21 * a33 - a23 * a31)
       + a13 * (a21 * a32 - a22 * a31)"

fun incircle_test :: "hinge \<Rightarrow> real" where
  "incircle_test (Hinge v0 v1 v2) =
     det3 (fst v0, snd v0, (fst v0)\<^sup>2 + (snd v0)\<^sup>2)
          (fst v1, snd v1, (fst v1)\<^sup>2 + (snd v1)\<^sup>2)
          (fst v2, snd v2, (fst v2)\<^sup>2 + (snd v2)\<^sup>2)"

text \<open>
  \<open>Hinge.halfplane\<close> computes the three coefficients and ends in \<open>HalfPlane(a, b, c)\<close>.
  triangulation.py imports the class \<open>HalfPlane\<close> from a module \<open>halfplane\<close> that is not
  among the sources, so the code does not say what its constructor does with the
  coefficients: the constructor is the parameter \<open>ctor\<close>.
\<close>

fun hinge_halfplane_with :: "(real \<Rightarrow> real \<Rightarrow> real \<Rightarrow> 'h) \<Rightarrow> hinge \<Rightarrow> 'h" where
  "hinge_halfplane_with ctor (Hinge v0 v1 v2) =
     (let a = det3 (fst v0, snd v0, (snd v0)\<^sup>2)
                   (fst v1, snd v1, (snd v1)\<^sup>2)
                   (fst v2, snd v2, (snd v2)\<^sup>2);
          b = 2 * det3 (fst v0, snd v0, fst v0 * snd v0)
                       (fst v1, snd v1, fst v1 * snd v1)
                       (fst v2, snd v2, fst v2 * snd v2);
          c = det3 (fst v0, snd v0, (fst v0)\<^sup>2)
                   (fst v1, snd v1, (fst v1)\<^sup>2)
                   (fst v2, snd v2, (fst v2)\<^sup>2)
      in ctor a b c)"

text \<open>
  Modelled from the spec: the constructor of the class \<open>HalfPlane\<close> of the absent module
  \<open>halfplane\<close>, as \<open>Hinge.halfplane\<close> calls it. By the spec, \<open>Hinge.halfplane\<close> "constructs
  the HalfPlane via \<open>from_ineq\<close>": the construction yields a Line or a Circle, or fails
  with the degenerate-half-plane error.
\<close>

definition construct_halfplane :: "real \<Rightarrow> real \<Rightarrow> real \<Rightarrow> error + halfplane" where
  "construct_halfplane a b c = from_ineq a b c"

text \<open>
  Modelled from the spec: the object that \<open>halfplanes\<close> gets from \<open>hinge.halfplane()\<close>,
  tests for its \<open>boundary\<close> and puts into a set. By the spec a HalfPlane is the immutable,
  hashable triple of its coefficients, which drives the deduplication; so in
  \<open>halfplanes\<close> the half-plane of a hinge is carried as the triple of its coefficients,
  degenerate or not, and \<open>boundary\<close> below tells whether its construction succeeds.
\<close>

definition hinge_halfplane :: "hinge \<Rightarrow> halfplane" where
  "hinge_halfplane h = hinge_halfplane_with HalfPlane h"

text \<open>\<open>itertools.product(range(num_triangles), range(3))\<close>, and Python's order on tuples.\<close>

definition all_edges :: "nat \<Rightarrow> label list" where
  "all_edges num_triangles = List.product (map int [0..<num_triangles]) [0, 1, 2]"

fun tuple_less :: "label \<Rightarrow> label \<Rightarrow> bool" where
  "tuple_less (i, j) (k, l) = (i < k \<or> (i = k \<and> j < l))"

fun reps_of :: "(label \<rightharpoonup> label) \<Rightarrow> label list \<Rightarrow> error + label list" where
  "reps_of g [] = Inr []"
| "reps_of g (e # es) =
     (case g e of
        None \<Rightarrow> Inl KeyError
      | Some e' \<Rightarrow> bind (reps_of g es) (\<lambda>reps. Inr (if tuple_less e e' then e # reps else reps)))"

definition edges :: "triangulation \<Rightarrow> error + label list" where
  "edges T = reps_of (gluings T) (all_edges (length (triangles T)))"

definition edges_gluings :: "triangulation \<Rightarrow> error + (label \<times> label) list" where
  "edges_gluings T =
     bind (edges T)
       (map_err (\<lambda>rep. case gluings T rep of None \<Rightarrow> Inl KeyError | Some e' \<Rightarrow> Inr (rep, e')))"

definition hinge_of :: "triangulation \<Rightarrow> label \<Rightarrow> error + hinge" where
  "hinge_of T e =
     (case gluings T e of
        None \<Rightarrow> Inl KeyError
      | Some edge_opposite \<Rightarrow>
          bind (getitem (triangles T) (fst e)) (\<lambda>tri1.
          bind (getitem (triangles T) (fst edge_opposite)) (\<lambda>tri2.
            from_triangles tri1 (snd e) tri2 (snd edge_opposite))))"

definition hinges :: "triangulation \<Rightarrow> error + hinge list" where
  "hinges T = bind (edges T) (map_err (hinge_of T))"

text \<open>Python's \<open>all\<close> over a generator stops at the first element that fails.\<close>

fun all_py :: "('a \<Rightarrow> bool) \<Rightarrow> 'a list \<Rightarrow> bool" where
  "all_py test [] = True"
| "all_py test (x # xs) = (if test x then all_py test xs else False)"

definition is_delaunay :: "triangulation \<Rightarrow> bool \<Rightarrow> error + bool" where
  "is_delaunay T strict =
     (if strict
      then bind (hinges T) (\<lambda>hs. Inr (all_py (\<lambda>h. incircle_test h > 0) hs))
      else bind (hinges T) (\<lambda>hs. Inr (all_py (\<lambda>h. incircle_test h \<ge> 0) hs)))"

text \<open>
  Modelled from the spec: the attribute \<open>boundary\<close> belongs to the class \<open>HalfPlane\<close> of
  the module \<open>halfplane\<close> that triangulation.py imports, which is not among the sources.
  By the spec \<open>halfplanes\<close> keeps the half-planes that are not degenerate, that is, whose
  coefficients \<open>from_ineq\<close> accepts; \<open>boundary\<close> is \<open>None\<close> for the others.
\<close>

definition boundary :: "halfplane \<Rightarrow> halfplane option" where
  "boundary h =
     (case from_ineq (hp_a h) (hp_b h) (hp_c h) of Inl e \<Rightarrow> None | Inr g \<Rightarrow> Some g)"

text \<open>
  \<open>list(set(...))\<close> keeps one copy of each half-plane, in the order of the hash table;
  \<open>remdups\<close> stands for it, and only the elements of the result and their distinctness
  are meaningful.
\<close>

definition halfplanes :: "triangulation \<Rightarrow> error + halfplane list" where
  "halfplanes T =
     bind (hinges T) (\<lambda>hs.
       Inr (remdups (map hinge_halfplane
              (filter (\<lambda>h. boundary (hinge_halfplane h) \<noteq> None) hs))))"

text \<open>
  The invariant of a Triangulation: the gluing map is a fixed-point-free involution on the
  set \<open>P\<close> of its labels.
\<close>

definition involution_on :: "label set \<Rightarrow> (label \<rightharpoonup> label) \<Rightarrow> bool" where
  "involution_on P g =
     (\<forall>e\<in>P. \<exists>e'. g e = Some e' \<and> e' \<in> P \<and> e' \<noteq> e \<and> g e' = Some e)"

text \<open>
  The square torus: the unit square cut along a diagonal into two triangles, opposite sides
  glued.
\<close>

definition square_torus :: triangulation where
  "square_torus =
     \<lparr> triangles = [Triangle [(1, 0), (0, 1), (- 1, - 1)], Triangle [(- 1, 0), (0, - 1), (1, 1)]],
       gluings = [(0, 0) \<mapsto> (1, 0), (0, 1) \<mapsto> (1, 1), (0, 2) \<mapsto> (1, 2),
                  (1, 0) \<mapsto> (0, 0), (1, 1) \<mapsto> (0, 1), (1, 2) \<mapsto> (0, 2)] \<rparr>"

section \<open>Construction of half-planes\<close>

lemma from_ineq_Line: "(from_ineq a b c = Inr (Line a b c)) = (a = 0 \<and> b \<noteq> 0)"
  by (simp add: from_ineq_def)

lemma from_ineq_Circle:
  "(from_ineq a b c = Inr (Circle a b c)) = (a \<noteq> 0 \<and> b\<^sup>2 - 4 * a * c > 0)"
  by (simp add: from_ineq_def)

lemma from_ineq_fails:
  "(from_ineq a b c = Inl degenerate)
     = (\<not> (a = 0 \<and> b \<noteq> 0) \<and> \<not> (a \<noteq> 0 \<and> b\<^sup>2 - 4 * a * c > 0))"
  by (simp add: from_ineq_def)

lemma from_ineq_Inr: "from_ineq a b c = Inr h \<Longrightarrow> h = Line a b c \<or> h = Circle a b c"
  by (simp add: from_ineq_def split: if_splits)

lemma from_ineq_Inl: "from_ineq a b c = Inl e \<Longrightarrow> e = degenerate"
  by (simp add: from_ineq_def split: if_splits)

text \<open>
  C7. For all coefficients \<open>(a, b, c)\<close>, \<open>from_ineq\<close> returns a Line exactly when
  \<open>a = 0\<close> and \<open>b \<noteq> 0\<close>, returns a Circle exactly when \<open>a \<noteq> 0\<close> and
  \<open>b\<^sup>2 - 4ac > 0\<close>, and fails with the degenerate-half-plane error in every other case;
  in particular \<open>from_ineq(0, 0, 1)\<close> and \<open>from_ineq(1, 0, 1)\<close> both fail.
\<close>

theorem from_ineq_cases:
  "(from_ineq a b c = Inr (Line a b c)) = (a = 0 \<and> b \<noteq> 0)
   \<and> (from_ineq a b c = Inr (Circle a b c)) = (a \<noteq> 0 \<and> b\<^sup>2 - 4 * a * c > 0)
   \<and> (from_ineq a b c = Inl degenerate)
       = (\<not> (a = 0 \<and> b \<noteq> 0) \<and> \<not> (a \<noteq> 0 \<and> b\<^sup>2 - 4 * a * c > 0))
   \<and> (\<forall>h. from_ineq a b c = Inr h \<longrightarrow> h = Line a b c \<or> h = Circle a b c)
   \<and> (\<forall>e. from_ineq a b c = Inl e \<longrightarrow> e = degenerate)
   \<and> from_ineq 0 0 1 = Inl degenerate
   \<and> from_ineq 1 0 1 = Inl degenerate"
proof (intro conjI allI impI)
  show "(from_ineq a b c = Inr (Line a b c)) = (a = 0 \<and> b \<noteq> 0)"
    by (rule from_ineq_Line)
  show "(from_ineq a b c = Inr (Circle a b c)) = (a \<noteq> 0 \<and> b\<^sup>2 - 4 * a * c > 0)"
    by (rule from_ineq_Circle)
  show "(from_ineq a b c = Inl degenerate)
       = (\<not> (a = 0 \<and> b \<noteq> 0) \<and> \<not> (a \<noteq> 0 \<and> b\<^sup>2 - 4 * a * c > 0))"
    by (rule from_ineq_fails)
  show "h = Line a b c \<or> h = Circle a b c" if "from_ineq a b c = Inr h" for h
    using that by (rule from_ineq_Inr)
  show "e = degenerate" if "from_ineq a b c = Inl e" for e
    using that by (rule from_ineq_Inl)
  show "from_ineq 0 0 1 = Inl degenerate"
    by (simp add: from_ineq_fails)
  show "from_ineq 1 0 1 = Inl degenerate"
    by (simp add: from_ineq_fails)
qed

theorem from_ineq_cases_witness:
  "from_ineq 0 (-1) 2 = Inr (Line 0 (-1) 2) \<and> from_ineq 1 0 (-1) = Inr (Circle 1 0 (-1))"
proof
  show "from_ineq 0 (-1) 2 = Inr (Line 0 (-1) 2)"
    using from_ineq_cases [of 0 "-1" 2, THEN conjunct1] by simp
  show "from_ineq 1 0 (-1) = Inr (Circle 1 0 (-1))"
    using from_ineq_cases [of 1 0 "-1", THEN conjunct2, THEN conjunct1] by simp
qed

section \<open>Containment\<close>

lemma bind_Inr [simp]: "bind (Inr x) f = f x"
  by (simp add: bind_def)

lemma bind_Inl [simp]: "bind (Inl e) f = Inl e"
  by (simp add: bind_def)

lemma is_oriented_Circle:
  "a \<noteq> 0 \<Longrightarrow> is_oriented (Circle a b c) =
     Inr (plug_point_into_halfplane (Radical (- b / (2 * a)) 0 0) 0 (Circle a b c) = 0
          \<or> plug_point_into_halfplane (Radical (- b / (2 * a)) 0 0) 0 (Circle a b c) > 0)"
  by (simp add: number_def Let_def)

lemma from_ineq_oriented:
  assumes "from_ineq a b c = Inr h"
  shows "\<exists>ori. is_oriented h = Inr ori"
proof -
  from assms consider "h = Line a b c" | "h = Circle a b c" "a \<noteq> 0"
    by (auto simp: from_ineq_def split: if_splits)
  then show ?thesis
  proof cases
    case 1
    then show ?thesis by simp
  next
    case 2
    show ?thesis
      unfolding 2(1) is_oriented_Circle [OF 2(2)] by (rule exI) (rule refl)
  qed
qed

lemma contains_point_finite:
  "contains_point h (Point (Finite u) v) ob =
     Inr (plug_point_into_halfplane u v h = 0 \<or> (\<not> ob \<and> plug_point_into_halfplane u v h > 0))"
  by (simp add: Let_def)

lemma contains_point_infinity_boundary:
  "contains_point h (Point Infinity v) True = Inr (is_Line h)"
  by simp

lemma contains_point_infinity:
  "is_oriented h = Inr ori \<Longrightarrow> contains_point h (Point Infinity v) False = Inr (is_Line h \<or> \<not> ori)"
  by (cases h) simp_all

lemma contains_point_total:
  "is_oriented h = Inr ori \<Longrightarrow> \<exists>r. contains_point h p ob = Inr r"
  by (cases p; cases "pt_u p"; cases ob) (auto simp: contains_point_infinity Let_def)

lemma contains_point_monotone:
  "contains_point h p True = Inr True \<Longrightarrow> contains_point h p False = Inr True"
  by (cases p; cases "pt_u p") (simp_all add: Let_def)

lemma plug_number:
  "plug_point_into_halfplane (Radical x 0 0) v h = hp_a h * (x\<^sup>2 + v\<^sup>2) + hp_b h * x + hp_c h"
  by (simp add: plug_point_into_halfplane_def radical_value_def)

lemma contains_point_number:
  "contains_point h (Point (number x) v) ob =
     Inr (plug_point_into_halfplane (Radical x 0 0) v h = 0
          \<or> (\<not> ob \<and> plug_point_into_halfplane (Radical x 0 0) v h > 0))"
  by (simp add: number_def Let_def)

text \<open>
  C4. At the point at infinity, \<open>contains_point\<close> without \<open>on_boundary\<close> is true iff the
  half-plane is a Line or is unoriented, and with \<open>on_boundary\<close> it is true iff the
  half-plane is a Line; at an ordinary point with plug-in value
  \<open>r = a * (u\<^sup>2 + v\<^sup>2) + b * u + c\<close> it is true iff \<open>r = 0\<close>, or \<open>on_boundary\<close> is false and
  \<open>r > 0\<close>. Every half-plane built by \<open>from_ineq\<close> has an orientation. For the Line
  \<open>from_ineq(0, -1, 2)\<close>: it contains \<open>(1, 0)\<close>, does not contain \<open>(3, 0)\<close>, and has
  \<open>(2, 0)\<close> on its boundary.
\<close>

theorem contains_point_cases:
  "(is_oriented h = Inr ori \<longrightarrow>
      contains_point h (Point Infinity v) False = Inr (is_Line h \<or> \<not> ori))
   \<and> (is_Line h \<longrightarrow> contains_point h (Point Infinity v) False = Inr True)
   \<and> (from_ineq a b c = Inr h \<longrightarrow> (\<exists>ori'. is_oriented h = Inr ori'))
   \<and> contains_point h (Point Infinity v) True = Inr (is_Line h)
   \<and> contains_point h (Point (Finite u) v) on_boundary =
       Inr (let r = hp_a h * ((radical_value u)\<^sup>2 + v\<^sup>2) + hp_b h * radical_value u + hp_c h
            in r = 0 \<or> (\<not> on_boundary \<and> r > 0))
   \<and> from_ineq 0 (- 1) 2 = Inr (Line 0 (- 1) 2)
   \<and> contains_point (Line 0 (- 1) 2) (Point (number 1) 0) False = Inr True
   \<and> contains_point (Line 0 (- 1) 2) (Point (number 3) 0) False = Inr False
   \<and> contains_point (Line 0 (- 1) 2) (Point (number 2) 0) True = Inr True"
proof (intro conjI impI)
  show "contains_point h (Point Infinity v) False = Inr (is_Line h \<or> \<not> ori)"
    if "is_oriented h = Inr ori"
    using that by (rule contains_point_infinity)
  show "contains_point h (Point Infinity v) False = Inr True" if "is_Line h"
    using that by simp
  show "\<exists>ori'. is_oriented h = Inr ori'" if "from_ineq a b c = Inr h"
    using that by (rule from_ineq_oriented)
  show "contains_point h (Point Infinity v) True = Inr (is_Line h)"
    by simp
  show "contains_point h (Point (Finite u) v) on_boundary =
       Inr (let r = hp_a h * ((radical_value u)\<^sup>2 + v\<^sup>2) + hp_b h * radical_value u + hp_c h
            in r = 0 \<or> (\<not> on_boundary \<and> r > 0))"
    by (simp add: plug_point_into_halfplane_def Let_def)
  show "from_ineq 0 (- 1) 2 = Inr (Line 0 (- 1) 2)"
    by (simp add: from_ineq_def)
  show "contains_point (Line 0 (- 1) 2) (Point (number 1) 0) False = Inr True"
    by (simp add: contains_point_number plug_number)
  show "contains_point (Line 0 (- 1) 2) (Point (number 3) 0) False = Inr False"
    by (simp add: contains_point_number plug_number)
  show "contains_point (Line 0 (- 1) 2) (Point (number 2) 0) True = Inr True"
    by (simp add: contains_point_number plug_number)
qed

theorem contains_point_cases_witness:
  "is_oriented (Circle 1 0 (- 1)) = Inr False
   \<and> contains_point (Circle 1 0 (- 1)) (Point Infinity 0) False = Inr True
   \<and> is_Line (Line 0 (- 1) 2)
   \<and> contains_point (Line 0 (- 1) 2) (Point Infinity 0) False = Inr True
   \<and> from_ineq 1 0 (- 1) = Inr (Circle 1 0 (- 1))"
proof -
  have ori: "is_oriented (Circle 1 0 (- 1)) = Inr False"
    by (simp add: contains_point_number plug_number)
  have fi: "from_ineq 1 0 (- 1) = Inr (Circle 1 0 (- 1))"
    by (simp add: from_ineq_def)
  have "contains_point (Circle 1 0 (- 1)) (Point Infinity 0) False = Inr True"
    using contains_point_cases [of "Circle 1 0 (- 1)" False 0, THEN conjunct1] ori by simp
  moreover have "contains_point (Line 0 (- 1) 2) (Point Infinity 0) False = Inr True"
    using contains_point_cases [of "Line 0 (- 1) 2" _ 0, THEN conjunct2, THEN conjunct1]
    by simp
  ultimately show ?thesis
    using ori fi by simp
qed

text \<open>
  C10. Containment is monotone in the flag \<open>on_boundary\<close>: for every half-plane and every
  point, the point at infinity included, if \<open>contains_point\<close> with \<open>on_boundary = true\<close>
  returns true, then so does \<open>contains_point\<close> with \<open>on_boundary = false\<close>.
\<close>

theorem contains_point_monotone_on_boundary:
  "contains_point h p True = Inr True \<Longrightarrow> contains_point h p False = Inr True"
  by (rule contains_point_monotone)

theorem contains_point_monotone_on_boundary_witness:
  "contains_point (Line 0 (- 1) 2) (Point (number 2) 0) True = Inr True
   \<and> contains_point (Line 0 (- 1) 2) (Point (number 2) 0) False = Inr True
   \<and> contains_point (Line 0 (- 1) 2) (Point Infinity 0) True = Inr True
   \<and> contains_point (Line 0 (- 1) 2) (Point Infinity 0) False = Inr True"
proof -
  have 1: "contains_point (Line 0 (- 1) 2) (Point (number 2) 0) True = Inr True"
    by (simp add: contains_point_number plug_number)
  have 2: "contains_point (Line 0 (- 1) 2) (Point Infinity 0) True = Inr True"
    by simp
  show ?thesis
    using 1 2 contains_point_monotone_on_boundary [OF 1]
      contains_point_monotone_on_boundary [OF 2]
    by (intro conjI)
qed

text \<open>
  \<open>M.solve_right\<close> is written out by Cramer's rule in \<open>intersect_solve\<close>: for an
  invertible matrix it is the solution of the linear system.
\<close>

lemma intersect_solve_solves:
  assumes "a1 * b2 - b1 * a2 \<noteq> 0" and "intersect_solve a1 b1 a2 b2 r1 r2 = (x, u)"
  shows "a1 * x + b1 * u = r1" and "a2 * x + b2 * u = r2"
proof -
  let ?d = "a1 * b2 - b1 * a2"
  have x: "x = (r1 * b2 - b1 * r2) / ?d" and u: "u = (a1 * r2 - r1 * a2) / ?d"
    using assms(2) by simp_all
  have "a1 * x + b1 * u = (a1 * (r1 * b2 - b1 * r2) + b1 * (a1 * r2 - r1 * a2)) / ?d"
    unfolding x u by (simp add: add_divide_distrib)
  also have "a1 * (r1 * b2 - b1 * r2) + b1 * (a1 * r2 - r1 * a2) = r1 * ?d"
    by (simp add: algebra_simps)
  finally show "a1 * x + b1 * u = r1"
    using assms(1) by simp
  have "a2 * x + b2 * u = (a2 * (r1 * b2 - b1 * r2) + b2 * (a1 * r2 - r1 * a2)) / ?d"
    unfolding x u by (simp add: add_divide_distrib)
  also have "a2 * (r1 * b2 - b1 * r2) + b2 * (a1 * r2 - r1 * a2) = r2 * ?d"
    by (simp add: algebra_simps)
  finally show "a2 * x + b2 * u = r2"
    using assms(1) by simp
qed

lemma intersect_boundaries_Lines:
  "is_Line h \<Longrightarrow> is_Line g \<Longrightarrow> intersect_boundaries h g = Some (Point Infinity 0)"
  by (simp add: intersect_boundaries_def)

lemma intersect_boundaries_singular:
  "\<not> (is_Line h \<and> is_Line g) \<Longrightarrow> hp_a h * hp_b g - hp_b h * hp_a g = 0
     \<Longrightarrow> intersect_boundaries h g = None"
  by (simp add: intersect_boundaries_def)

text \<open>
  C3, as stated, fails for a Line: the test for two Lines comes before the matrix is formed,
  so the boundary of a Line meets itself at the point at infinity.
\<close>

theorem intersect_boundaries_self_Line_counterexample:
  "from_ineq 0 (- 1) 2 = Inr (Line 0 (- 1) 2)
   \<and> intersect_boundaries (Line 0 (- 1) 2) (Line 0 (- 1) 2) = Some (Point Infinity 0)
   \<and> intersect_boundaries (Line 0 (- 1) 2) (Line 0 (- 1) 2) \<noteq> None"
  by (simp add: from_ineq_def intersect_boundaries_Lines)

text \<open>
  C3, amended. For every Circle \<open>h\<close>, \<open>intersect_boundaries(h, h)\<close> is "no intersection",
  the coefficient matrix of \<open>h\<close> with itself being singular; for every Line \<open>h\<close> it is the
  point at infinity.
\<close>

theorem intersect_boundaries_self:
  "(is_Circle h \<longrightarrow> intersect_boundaries h h = None)
   \<and> (is_Line h \<longrightarrow> intersect_boundaries h h = Some (Point Infinity 0))
   \<and> hp_a h * hp_b h - hp_b h * hp_a h = 0"
proof (intro conjI impI)
  show "intersect_boundaries h h = None" if "is_Circle h"
    using that by (cases h) (simp_all add: intersect_boundaries_singular)
  show "intersect_boundaries h h = Some (Point Infinity 0)" if "is_Line h"
    using that by (simp add: intersect_boundaries_Lines)
  show "hp_a h * hp_b h - hp_b h * hp_a h = 0"
    by simp
qed

theorem intersect_boundaries_self_witness:
  "is_Circle (Circle 1 0 (- 1))
   \<and> intersect_boundaries (Circle 1 0 (- 1)) (Circle 1 0 (- 1)) = None
   \<and> is_Line (Line 0 (- 1) 2)
   \<and> intersect_boundaries (Line 0 (- 1) 2) (Line 0 (- 1) 2) = Some (Point Infinity 0)"
  using intersect_boundaries_self [of "Circle 1 0 (- 1)"]
    intersect_boundaries_self [of "Line 0 (- 1) 2"]
  by simp

section \<open>Clipping of edges\<close>

lemma from_ineq_contains:
  assumes "from_ineq a b c = Inr h"
  shows "\<exists>r. contains_point h p ob = Inr r"
proof -
  from from_ineq_oriented [OF assms] obtain ori where "is_oriented h = Inr ori" ..
  then show ?thesis by (rule contains_point_total)
qed

lemma intersect_edge_real_eq:
  assumes "edge_halfplane e = Some g" "edge_start e = Some s" "edge_end e = Some t"
    and "contains_point h s False = Inr cs" "contains_point h t False = Inr ce"
  shows "intersect_edge_real h e =
     Inr (if cs \<and> ce then [e]
          else if \<not> cs \<and> \<not> ce then []
          else if cs then [Edge (Some g) (Some s) (intersect_boundaries h g)]
          else [Edge (Some g) (intersect_boundaries h g) (Some t)])"
  using assms by (simp add: intersect_edge_real_def Let_def)

text \<open>
  C5. For every half-plane \<open>h\<close> and every real (non-ideal) edge \<open>e\<close>, \<open>intersect_edge\<close>
  satisfies the trichotomy: if \<open>h\<close> contains both end points of \<open>e\<close>, the result is the
  sequence of \<open>e\<close> alone, unchanged; if it contains neither, the result is empty; if it
  contains exactly one, the result is a single new Edge with the boundary owner of \<open>e\<close>,
  joining the contained end point and \<open>intersect_boundaries(h, e.halfplane)\<close> (the
  contained end point stays where it was, start or end).
\<close>

theorem intersect_edge_real_trichotomy:
  assumes "from_ineq a b c = Inr h"
    and "edge_halfplane e = Some g" "edge_start e = Some s" "edge_end e = Some t"
  shows "\<exists>cs ce. contains_point h s False = Inr cs \<and> contains_point h t False = Inr ce
     \<and> \<not> is_ideal e
     \<and> intersect_edge CCW h e =
         Inr (if cs \<and> ce then [e]
              else if \<not> cs \<and> \<not> ce then []
              else if cs then [Edge (Some g) (Some s) (intersect_boundaries h g)]
              else [Edge (Some g) (intersect_boundaries h g) (Some t)])"
proof -
  from from_ineq_contains [OF assms(1)] obtain cs where cs: "contains_point h s False = Inr cs"
    by blast
  from from_ineq_contains [OF assms(1)] obtain ce where ce: "contains_point h t False = Inr ce"
    by blast
  have ni: "\<not> is_ideal e"
    using assms(2) by (simp add: is_ideal_def)
  then have "intersect_edge CCW h e = intersect_edge_real h e"
    by (simp add: intersect_edge_def)
  with intersect_edge_real_eq [OF assms(2-4) cs ce] cs ce ni show ?thesis
    by (intro exI conjI) simp_all
qed

theorem intersect_edge_real_trichotomy_witness:
  "from_ineq 0 (- 1) 2 = Inr (Line 0 (- 1) 2)
   \<and> intersect_edge (\<lambda>p q r. True) (Line 0 (- 1) 2)
        (Edge (Some (Circle 1 (- 4) 3)) (Some (Point (number 1) 0)) (Some (Point (number 3) 0)))
      = Inr [Edge (Some (Circle 1 (- 4) 3)) (Some (Point (number 1) 0))
               (Some (Point (Finite (Radical 2 0 0)) 1))]"
proof -
  let ?h = "Line 0 (- 1) 2"
  let ?g = "Circle 1 (- 4) 3"
  let ?e = "Edge (Some ?g) (Some (Point (number 1) 0)) (Some (Point (number 3) 0))"
  have fi: "from_ineq 0 (- 1) 2 = Inr ?h"
    by (simp add: from_ineq_def)
  have cs: "contains_point ?h (Point (number 1) 0) False = Inr True"
    by (simp add: contains_point_number plug_number)
  have ce: "contains_point ?h (Point (number 3) 0) False = Inr False"
    by (simp add: contains_point_number plug_number)
  have ib: "intersect_boundaries ?h ?g = Some (Point (Finite (Radical 2 0 0)) 1)"
    by (simp add: intersect_boundaries_def)
  from intersect_edge_real_trichotomy [OF fi, of ?e ?g "Point (number 1) 0" "Point (number 3) 0"
      "\<lambda>p q r. True"]
  have "intersect_edge (\<lambda>p q r. True) ?h ?e =
      Inr [Edge (Some ?g) (Some (Point (number 1) 0)) (Some (Point (Finite (Radical 2 0 0)) 1))]"
    unfolding cs ce ib by auto
  with fi show ?thesis by simp
qed

lemma from_ineq_shape:
  assumes "from_ineq a b c = Inr h"
  obtains "h = Line a b c" "b \<noteq> 0" | "h = Circle a b c" "a \<noteq> 0"
  using assms by (auto simp: from_ineq_def split: if_splits)

lemma Line_endpoints:
  "b \<noteq> 0 \<Longrightarrow> hp_start (Line a b c) =
      Inr (if b < 0 then Point (number (- c / b)) 0 else Point Infinity 0)"
  "b \<noteq> 0 \<Longrightarrow> hp_end (Line a b c) =
      Inr (if b < 0 then Point Infinity 0 else Point (number (- c / b)) 0)"
  "b \<noteq> 0 \<Longrightarrow> endpoint_real (Line a b c) = Inr (Point (number (- c / b)) 0)"
  by (simp_all add: endpoint_real_def)

lemma Line_witness_points:
  "b \<noteq> 0 \<Longrightarrow> point_inside (Line a b c) =
      Inr (Point (number (if b < 0 then - c / b - 1 else - c / b + 1)) 0)"
  "b \<noteq> 0 \<Longrightarrow> point_outside (Line a b c) =
      Inr (Point (number (if b < 0 then - c / b + 1 else - c / b - 1)) 0)"
  by (simp_all add: Line_endpoints number_def del: hp_start.simps hp_end.simps)

lemma Circle_endpoints:
  assumes "a \<noteq> 0"
  shows "\<exists>p. hp_start (Circle a b c) = Inr p \<and> \<not> is_infinity p"
    and "\<exists>p. hp_end (Circle a b c) = Inr p \<and> \<not> is_infinity p"
  using assms by (simp_all add: number_def is_infinity_def Let_def)

lemma shift_point_finite: "\<not> is_infinity p \<Longrightarrow> \<exists>q. shift_point p d = Inr q"
  by (cases "(p, d)" rule: shift_point.cases) (simp_all add: is_infinity_def)

lemma Circle_witness_points:
  assumes "a \<noteq> 0"
  shows "\<exists>p. point_inside (Circle a b c) = Inr p"
    and "\<exists>p. point_outside (Circle a b c) = Inr p"
proof -
  obtain ori where ori: "is_oriented (Circle a b c) = Inr ori"
    using is_oriented_Circle [OF assms] by blast
  obtain st where st: "hp_start (Circle a b c) = Inr st" "\<not> is_infinity st"
    using Circle_endpoints(1) [OF assms] by blast
  obtain en where en: "hp_end (Circle a b c) = Inr en" "\<not> is_infinity en"
    using Circle_endpoints(2) [OF assms] by blast
  have ctr: "\<exists>p. center (Circle a b c) = Inr p"
    using assms by simp
  show "\<exists>p. point_inside (Circle a b c) = Inr p"
    using ori en ctr shift_point_finite [OF en(2)]
    by (simp del: is_oriented.simps hp_end.simps center.simps)
  show "\<exists>p. point_outside (Circle a b c) = Inr p"
    using ori st ctr shift_point_finite [OF st(2)]
    by (simp del: is_oriented.simps hp_start.simps center.simps)
qed

lemma from_ineq_geometry:
  assumes "from_ineq a b c = Inr h"
  shows "\<exists>st en pin po. hp_start h = Inr st \<and> hp_end h = Inr en
           \<and> point_inside h = Inr pin \<and> point_outside h = Inr po"
proof (rule from_ineq_shape [OF assms])
  assume h: "h = Line a b c" and b: "b \<noteq> 0"
  from Line_endpoints(1,2) [OF b, of a c] Line_witness_points [OF b, of a c] show ?thesis
    unfolding h by blast
next
  assume h: "h = Circle a b c" and a: "a \<noteq> 0"
  from Circle_endpoints [OF a, of b c] Circle_witness_points [OF a, of b c] show ?thesis
    unfolding h by blast
qed

lemma intersect_edge_ideal_eq:
  assumes "edge_start e = Some s" "edge_end e = Some t"
    and "contains_point h s False = Inr cs" "contains_point h t False = Inr ce"
    and "hp_start h = Inr st" "hp_end h = Inr en"
    and "point_inside h = Inr pin" "point_outside h = Inr po"
  shows "intersect_edge_ideal CCW h e =
     Inr (if cs \<and> ce then
            (if CCW s t po then [e]
             else [Edge None (Some s) (Some st), Edge None (Some en) (Some t)])
          else if cs then [Edge None (Some s) (Some st)]
          else if ce then [Edge None (Some en) (Some t)]
          else (if CCW s t pin then [] else [Edge None (Some en) (Some st)]))"
  using assms by (simp add: intersect_edge_ideal_def)

text \<open>
  C6. For every half-plane \<open>h\<close> and every ideal edge \<open>e\<close>, \<open>intersect_edge\<close> follows the
  case analysis of the ideal clipping. Both end points contained: \<open>(e,)\<close> if
  \<open>CCW(e.start, e.end, outside witness)\<close>, otherwise the two arcs from \<open>e.start\<close> to
  \<open>h.start\<close> and from \<open>h.end\<close> to \<open>e.end\<close>. Exactly one contained: the single arc from
  \<open>e.start\<close> to \<open>h.start\<close> if it is \<open>e.start\<close>, from \<open>h.end\<close> to \<open>e.end\<close> if it is
  \<open>e.end\<close>. Neither contained: empty if \<open>CCW(e.start, e.end, inside witness)\<close>, otherwise
  the single arc from \<open>h.end\<close> to \<open>h.start\<close>.
\<close>

theorem intersect_edge_ideal_cases:
  assumes "from_ineq a b c = Inr h"
    and "is_ideal e" "edge_start e = Some s" "edge_end e = Some t"
  shows "\<exists>cs ce st en pin po.
      contains_point h s False = Inr cs \<and> contains_point h t False = Inr ce
      \<and> hp_start h = Inr st \<and> hp_end h = Inr en
      \<and> point_inside h = Inr pin \<and> point_outside h = Inr po
      \<and> intersect_edge CCW h e =
          Inr (if cs \<and> ce then
                 (if CCW s t po then [e]
                  else [Edge None (Some s) (Some st), Edge None (Some en) (Some t)])
               else if cs then [Edge None (Some s) (Some st)]
               else if ce then [Edge None (Some en) (Some t)]
               else (if CCW s t pin then [] else [Edge None (Some en) (Some st)]))"
proof -
  from from_ineq_contains [OF assms(1)] obtain cs where cs: "contains_point h s False = Inr cs"
    by blast
  from from_ineq_contains [OF assms(1)] obtain ce where ce: "contains_point h t False = Inr ce"
    by blast
  from from_ineq_geometry [OF assms(1)] obtain st en pin po
    where g: "hp_start h = Inr st" "hp_end h = Inr en"
      "point_inside h = Inr pin" "point_outside h = Inr po"
    by blast
  have "intersect_edge CCW h e = intersect_edge_ideal CCW h e"
    using assms(2) by (simp add: intersect_edge_def)
  with intersect_edge_ideal_eq [OF assms(3,4) cs ce g] cs ce g show ?thesis
    by (intro exI conjI) simp_all
qed

theorem intersect_edge_ideal_cases_witness:
  "from_ineq 0 (- 1) 2 = Inr (Line 0 (- 1) 2)
   \<and> is_ideal (Edge None (Some (Point (number 1) 0)) (Some (Point (number 3) 0)))
   \<and> intersect_edge (\<lambda>p q r. True) (Line 0 (- 1) 2)
        (Edge None (Some (Point (number 1) 0)) (Some (Point (number 3) 0)))
      = Inr [Edge None (Some (Point (number 1) 0)) (Some (Point (number 2) 0))]"
proof -
  let ?h = "Line 0 (- 1) 2"
  let ?e = "Edge None (Some (Point (number 1) 0)) (Some (Point (number 3) 0))"
  have fi: "from_ineq 0 (- 1) 2 = Inr ?h"
    by (simp add: from_ineq_def)
  have id: "is_ideal ?e"
    by (simp add: is_ideal_def)
  have cs: "contains_point ?h (Point (number 1) 0) False = Inr True"
    by (simp add: contains_point_number plug_number)
  have ce: "contains_point ?h (Point (number 3) 0) False = Inr False"
    by (simp add: contains_point_number plug_number)
  have st: "hp_start ?h = Inr (Point (number 2) 0)"
    by simp
  from intersect_edge_ideal_cases [OF fi id, of "Point (number 1) 0" "Point (number 3) 0"
      "\<lambda>p q r. True"]
  have "intersect_edge (\<lambda>p q r. True) ?h ?e = Inr [Edge None (Some (Point (number 1) 0))
      (Some (Point (number 2) 0))]"
    unfolding cs ce st by auto
  with fi id show ?thesis by simp
qed


section \<open>Hinges, the Delaunay test and the half-planes of a triangulation\<close>

lemma all_edges_2: "all_edges (Suc (Suc 0)) = [(0, 0), (0, 1), (0, 2), (1, 0), (1, 1), (1, 2)]"
  by (simp add: all_edges_def)

lemma edges_square_torus: "edges square_torus = Inr [(0, 0), (0, 1), (0, 2)]"
  by (simp add: edges_def square_torus_def all_edges_2)

lemma hinges_square_torus:
  "hinges square_torus =
     Inr [Hinge (0, - 1) (1, 0) (1, 1), Hinge (1, 1) (0, 1) (- 1, 0),
          Hinge (- 1, 0) (- 1, - 1) (0, - 1)]"
  unfolding hinges_def edges_square_torus
  by (simp add: hinge_of_def square_torus_def getitem_def from_triangles_def neg_def)

lemma all_py_iff: "all_py test xs = (\<forall>x\<in>set xs. test x)"
  by (induction xs) simp_all

lemma is_delaunay_Inr:
  "hinges T = Inr hs \<Longrightarrow>
     is_delaunay T strict =
       Inr (\<forall>h\<in>set hs. if strict then incircle_test h > 0 else incircle_test h \<ge> 0)"
  by (simp add: is_delaunay_def all_py_iff)

lemma is_delaunay_Inl: "hinges T = Inl e \<Longrightarrow> is_delaunay T strict = Inl e"
  by (simp add: is_delaunay_def)

text \<open>
  C8. \<open>is_delaunay(strict=false)\<close> returns true iff \<open>hinges()\<close> yields the hinges and every
  one of them has \<open>incircle_test() \<ge> 0\<close>; \<open>is_delaunay(strict=true)\<close> returns true iff every
  one has \<open>incircle_test() > 0\<close>; whenever the hinges exist, \<open>is_delaunay\<close> returns.
  \<open>incircle_test()\<close> is the determinant of the matrix with the rows \<open>[x, y, x\<^sup>2 + y\<^sup>2]\<close> of
  the three hinge vectors.
\<close>

theorem is_delaunay_iff:
  "(is_delaunay T False = Inr True)
     = (\<exists>hs. hinges T = Inr hs \<and> (\<forall>h\<in>set hs. incircle_test h \<ge> 0))
   \<and> (is_delaunay T True = Inr True)
     = (\<exists>hs. hinges T = Inr hs \<and> (\<forall>h\<in>set hs. incircle_test h > 0))
   \<and> (\<forall>hs. hinges T = Inr hs \<longrightarrow> (\<exists>r. is_delaunay T strict = Inr r))
   \<and> incircle_test (Hinge (x0, y0) (x1, y1) (x2, y2)) =
       det3 (x0, y0, x0\<^sup>2 + y0\<^sup>2) (x1, y1, x1\<^sup>2 + y1\<^sup>2) (x2, y2, x2\<^sup>2 + y2\<^sup>2)"
proof (intro conjI allI impI)
  show "(is_delaunay T False = Inr True)
     = (\<exists>hs. hinges T = Inr hs \<and> (\<forall>h\<in>set hs. incircle_test h \<ge> 0))"
  proof (cases "hinges T")
    case (Inl e)
    then show ?thesis by (simp add: is_delaunay_Inl)
  next
    case (Inr hs)
    then show ?thesis by (simp add: is_delaunay_Inr)
  qed
  show "(is_delaunay T True = Inr True)
     = (\<exists>hs. hinges T = Inr hs \<and> (\<forall>h\<in>set hs. incircle_test h > 0))"
  proof (cases "hinges T")
    case (Inl e)
    then show ?thesis by (simp add: is_delaunay_Inl)
  next
    case (Inr hs)
    then show ?thesis by (simp add: is_delaunay_Inr)
  qed
  show "\<exists>r. is_delaunay T strict = Inr r" if "hinges T = Inr hs" for hs
    using that by (simp add: is_delaunay_Inr)
  show "incircle_test (Hinge (x0, y0) (x1, y1) (x2, y2)) =
       det3 (x0, y0, x0\<^sup>2 + y0\<^sup>2) (x1, y1, x1\<^sup>2 + y1\<^sup>2) (x2, y2, x2\<^sup>2 + y2\<^sup>2)"
    by simp
qed

theorem is_delaunay_iff_witness:
  "hinges square_torus =
     Inr [Hinge (0, - 1) (1, 0) (1, 1), Hinge (1, 1) (0, 1) (- 1, 0),
          Hinge (- 1, 0) (- 1, - 1) (0, - 1)]
   \<and> is_delaunay square_torus False = Inr True
   \<and> is_delaunay square_torus True \<noteq> Inr True"
proof -
  have weak: "is_delaunay square_torus False = Inr True"
    using is_delaunay_iff [of square_torus, THEN conjunct1]
    by (simp add: hinges_square_torus)
  have strict: "is_delaunay square_torus True \<noteq> Inr True"
    using is_delaunay_iff [of square_torus, THEN conjunct2, THEN conjunct1]
    by (simp add: hinges_square_torus)
  from weak strict hinges_square_torus show ?thesis by simp
qed

lemma halfplanes_Inr:
  "hinges T = Inr hs \<Longrightarrow>
     halfplanes T =
       Inr (remdups (map hinge_halfplane
              (filter (\<lambda>h. boundary (hinge_halfplane h) \<noteq> None) hs)))"
  by (simp add: halfplanes_def)

lemma boundary_iff:
  "(boundary h \<noteq> None) = (\<exists>g. from_ineq (hp_a h) (hp_b h) (hp_c h) = Inr g)"
  by (simp add: boundary_def split: sum.splits)

text \<open>
  C1. \<open>halfplanes()\<close> fails exactly as \<open>hinges()\<close> does; otherwise it returns the
  half-planes of the hinges without duplicates, keeping the half-plane of a hinge iff it is
  not degenerate, that is, iff \<open>from_ineq\<close> accepts its coefficients.
\<close>

theorem halfplanes_dedup:
  "(\<forall>e. hinges T = Inl e \<longrightarrow> halfplanes T = Inl e)
   \<and> (\<forall>hs. hinges T = Inr hs \<longrightarrow>
        (\<exists>xs. halfplanes T = Inr xs \<and> distinct xs
           \<and> set xs = {hinge_halfplane h | h. h \<in> set hs
                 \<and> (\<exists>g. from_ineq (hp_a (hinge_halfplane h)) (hp_b (hinge_halfplane h))
                            (hp_c (hinge_halfplane h)) = Inr g)}))"
proof (intro conjI allI impI)
  show "halfplanes T = Inl e" if "hinges T = Inl e" for e
    using that by (simp add: halfplanes_def)
  show "\<exists>xs. halfplanes T = Inr xs \<and> distinct xs
           \<and> set xs = {hinge_halfplane h | h. h \<in> set hs
                 \<and> (\<exists>g. from_ineq (hp_a (hinge_halfplane h)) (hp_b (hinge_halfplane h))
                            (hp_c (hinge_halfplane h)) = Inr g)}"
    if "hinges T = Inr hs" for hs
  proof (intro exI conjI)
    show "halfplanes T = Inr (remdups (map hinge_halfplane
              (filter (\<lambda>h. boundary (hinge_halfplane h) \<noteq> None) hs)))"
      using that by (rule halfplanes_Inr)
    show "distinct (remdups (map hinge_halfplane
              (filter (\<lambda>h. boundary (hinge_halfplane h) \<noteq> None) hs)))"
      by simp
    show "set (remdups (map hinge_halfplane
              (filter (\<lambda>h. boundary (hinge_halfplane h) \<noteq> None) hs)))
          = {hinge_halfplane h | h. h \<in> set hs
                 \<and> (\<exists>g. from_ineq (hp_a (hinge_halfplane h)) (hp_b (hinge_halfplane h))
                            (hp_c (hinge_halfplane h)) = Inr g)}"
      unfolding boundary_iff by auto
  qed
qed

theorem halfplanes_dedup_witness:
  "halfplanes square_torus = Inr [HalfPlane 2 2 0, HalfPlane 0 2 2, HalfPlane 0 (- 2) 0]
   \<and> from_ineq 2 2 0 = Inr (Circle 2 2 0)
   \<and> from_ineq 0 2 2 = Inr (Line 0 2 2)
   \<and> from_ineq 0 (- 2) 0 = Inr (Line 0 (- 2) 0)"
proof -
  from halfplanes_dedup [of square_torus, THEN conjunct2] hinges_square_torus
  obtain xs where "halfplanes square_torus = Inr xs"
    by blast
  moreover have "halfplanes square_torus =
      Inr [HalfPlane 2 2 0, HalfPlane 0 2 2, HalfPlane 0 (- 2) 0]"
    by (simp add: halfplanes_Inr [OF hinges_square_torus] hinge_halfplane_def boundary_def
        from_ineq_def)
  ultimately show ?thesis
    by (simp add: from_ineq_def)
qed


lemma hinge_halfplane_with_triple:
  assumes "hinge_halfplane_with (\<lambda>a b c. (a, b, c)) h = (a, b, c)"
  shows "hinge_halfplane_with ctor h = ctor a b c"
proof (cases h)
  case (Hinge v0 v1 v2)
  from assms show ?thesis
    unfolding Hinge hinge_halfplane_with.simps Let_def by simp
qed

lemma boundary_hinge_halfplane:
  "(boundary (hinge_halfplane h) \<noteq> None)
     = (\<exists>g. hinge_halfplane_with construct_halfplane h = Inr g)"
proof -
  obtain a b c where t: "hinge_halfplane_with (\<lambda>a b c. (a, b, c)) h = (a, b, c)"
    by (metis prod_cases3)
  have "hinge_halfplane h = HalfPlane a b c"
    unfolding hinge_halfplane_def by (rule hinge_halfplane_with_triple [OF t])
  moreover have "hinge_halfplane_with construct_halfplane h = from_ineq a b c"
    unfolding hinge_halfplane_with_triple [OF t] by (rule construct_halfplane_def)
  ultimately show ?thesis
    unfolding boundary_iff by simp
qed



section \<open>The edges of a triangulation\<close>

lemma tuple_less_irrefl: "\<not> tuple_less e e"
  by (cases e) simp

lemma tuple_less_asym: "tuple_less e e' \<Longrightarrow> \<not> tuple_less e' e"
  by (cases e; cases e') auto

lemma tuple_less_total: "e \<noteq> e' \<Longrightarrow> tuple_less e e' \<or> tuple_less e' e"
  by (cases e; cases e') auto

lemma reps_of_filter:
  "\<forall>e\<in>set es. \<exists>e'. g e = Some e' \<Longrightarrow>
     reps_of g es = Inr (filter (\<lambda>e. tuple_less e (the (g e))) es)"
  by (induction es) auto

lemma distinct_all_edges: "distinct (all_edges n)"
  by (simp add: all_edges_def distinct_product distinct_map inj_on_def)

lemma length_all_edges: "length (all_edges n) = 3 * n"
  by (simp add: all_edges_def)

lemma involution_halves:
  assumes fin: "finite P" and inv: "involution_on P g"
  shows "2 * card {e \<in> P. tuple_less e (the (g e))} = card P"
proof -
  let ?g = "\<lambda>e. the (g e)"
  let ?A = "{e \<in> P. tuple_less e (?g e)}"
  let ?B = "{e \<in> P. tuple_less (?g e) e}"
  have g_in: "?g e \<in> P" and g_ne: "?g e \<noteq> e" and g_g: "?g (?g e) = e" if "e \<in> P" for e
    using inv that unfolding involution_on_def by force+
  have un: "P = ?A \<union> ?B"
    using g_ne tuple_less_total by blast
  have disj: "?A \<inter> ?B = {}"
    using tuple_less_asym by blast
  have img: "?g ` ?A = ?B"
  proof
    show "?g ` ?A \<subseteq> ?B"
      using g_in g_g by auto
    show "?B \<subseteq> ?g ` ?A"
    proof
      fix e assume e: "e \<in> ?B"
      then have "?g e \<in> ?A"
        using g_in g_g by auto
      moreover have "?g (?g e) = e"
        using e g_g by simp
      ultimately show "e \<in> ?g ` ?A"
        by (metis (no_types, lifting) image_eqI)
    qed
  qed
  have inj: "inj_on ?g ?A"
    by (rule inj_on_inverseI [where g = ?g]) (simp add: g_g)
  have "card ?B = card ?A"
    using card_image [OF inj] img by simp
  moreover have "card P = card ?A + card ?B"
    using un disj fin card_Un_disjoint [of ?A ?B] by (metis (no_types, lifting) finite_Un)
  ultimately show ?thesis by simp
qed

text \<open>
  C9. For a Triangulation with \<open>n\<close> triangles whose gluing map is a fixed-point-free
  involution on the labels, \<open>edges()\<close> returns, without repetition, exactly the labels
  smaller than their gluing image: of every glued pair exactly one label, the
  lexicographically smaller; so twice its length is \<open>3n\<close>.
\<close>

theorem edges_representatives:
  assumes "involution_on (set (all_edges (length (triangles T)))) (gluings T)"
  shows "\<exists>reps. edges T = Inr reps \<and> distinct reps
     \<and> set reps = {e \<in> set (all_edges (length (triangles T))).
                      \<exists>e'. gluings T e = Some e' \<and> tuple_less e e'}
     \<and> (\<forall>e\<in>set (all_edges (length (triangles T))).
           \<forall>e'. gluings T e = Some e' \<longrightarrow> (e \<in> set reps) \<noteq> (e' \<in> set reps))
     \<and> 2 * length reps = 3 * length (triangles T)"
proof -
  let ?P = "set (all_edges (length (triangles T)))"
  let ?g = "gluings T"
  let ?reps = "filter (\<lambda>e. tuple_less e (the (?g e))) (all_edges (length (triangles T)))"
  have dom: "\<forall>e\<in>?P. \<exists>e'. ?g e = Some e'"
    using assms unfolding involution_on_def by blast
  have ed: "edges T = Inr ?reps"
    unfolding edges_def by (rule reps_of_filter [OF dom])
  have dist: "distinct ?reps"
    by (simp add: distinct_all_edges)
  have set_eq: "set ?reps = {e \<in> ?P. \<exists>e'. ?g e = Some e' \<and> tuple_less e e'}"
    using dom by auto
  have one: "(e \<in> set ?reps) \<noteq> (e' \<in> set ?reps)" if "e \<in> ?P" "?g e = Some e'" for e e'
  proof -
    from assms that have e': "e' \<in> ?P" "e' \<noteq> e" "?g e' = Some e"
      unfolding involution_on_def by force+
    show ?thesis
      using that e' tuple_less_total [of e e'] tuple_less_asym [of e e'] by auto
  qed
  have "length ?reps = card {e \<in> ?P. tuple_less e (the (?g e))}"
    using distinct_length_filter [OF distinct_all_edges, of "\<lambda>e. tuple_less e (the (?g e))"
        "length (triangles T)"]
    by (simp add: Int_def conj_commute)
  then have len: "2 * length ?reps = 3 * length (triangles T)"
    using involution_halves [OF _ assms] distinct_card [OF distinct_all_edges, of "length (triangles T)"]
    by (simp add: length_all_edges)
  show ?thesis
    using ed dist set_eq one len by (intro exI [of _ ?reps] conjI ballI allI impI)
qed

lemma involution_square_torus:
  "involution_on (set (all_edges (length (triangles square_torus)))) (gluings square_torus)"
  by (simp add: involution_on_def square_torus_def all_edges_2)

theorem edges_representatives_witness:
  "involution_on (set (all_edges (length (triangles square_torus)))) (gluings square_torus)
   \<and> edges square_torus = Inr [(0, 0), (0, 1), (0, 2)]
   \<and> 2 * length [(0, 0), (0, 1), (0, 2) :: label] = 3 * length (triangles square_torus)"
proof -
  from edges_representatives [OF involution_square_torus]
  obtain reps where "edges square_torus = Inr reps"
    "2 * length reps = 3 * length (triangles square_torus)"
    by blast
  then show ?thesis
    using involution_square_torus by (simp add: edges_square_torus)
qed

end
